theory Spec2Isabelle
  imports
    Main
    "HOL-Library.Word"
    "HOL-Library.Sublist"
    "HOL-Library.AList"
    "HOL-Library.Char_ord"
    "HOL-Library.List_Lexorder"
begin

unbundle bit_operations_syntax

section \<open>Values of the host language\<close>

text \<open>
  The trie of \<^verbatim>\<open>src/index.js\<close> stores arbitrary JavaScript values. The model keeps the
  shapes the source distinguishes: \<^verbatim>\<open>undefined\<close>, strings, numbers, plain objects (a list
  of properties), instances of the class \<^verbatim>\<open>MultiValue\<close> (the member list \<^verbatim>\<open>values\<close>
  together with the further properties that \<^verbatim>\<open>setKey\<close> stores on the instance), arrays,
  and function values (\<open>Closure\<close>), which one comparator of the source returns.

  Numbers are modelled as integers, with \<open>NaN\<close> for the result of arithmetic on a value
  that is not a number. The model therefore agrees with the IEEE doubles of the source
  on integers that a double represents exactly.

  Strings are lists of characters, compared unit by unit as the source's \<^verbatim>\<open><\<close> does.
\<close>

datatype jsval =
    Undefined
  | Str string
  | Num int
  | NaN
  | Closure
  | Obj "(string \<times> jsval) list"
  | MultiValue "jsval list" "(string \<times> jsval) list"
  | Arr "jsval list"

datatype error = TypeError | Unsupported | OutOfFuel

text \<open>
  \<open>TypeError\<close> is the exception the engine raises when the source calls something that
  is not a function or reads a property of \<^verbatim>\<open>undefined\<close>. \<open>Unsupported\<close> marks an input
  outside the modelled domain (a key or value that is not of the configured key domain,
  or options that hold some key-domain functions and lack others); it is the boundary of
  the model, not a behaviour of the source. \<open>OutOfFuel\<close>
  is the answer of a recursive operation whose recursion bound is used up: the source
  would recurse further.
\<close>

fun get_prop :: "jsval \<Rightarrow> string \<Rightarrow> jsval" where
  "get_prop (Obj ps) a = (case map_of ps a of Some v \<Rightarrow> v | None \<Rightarrow> Undefined)"
| "get_prop (MultiValue vs ps) a = (case map_of ps a of Some v \<Rightarrow> v | None \<Rightarrow> Undefined)"
| "get_prop v a = Undefined"

fun set_prop :: "jsval \<Rightarrow> string \<Rightarrow> jsval \<Rightarrow> jsval" where
  "set_prop (Obj ps) a v = Obj (AList.update a v ps)"
| "set_prop (MultiValue vs ps) a v = MultiValue vs (AList.update a v ps)"
| "set_prop w a v = w"

fun truthy :: "jsval \<Rightarrow> bool" where
  "truthy Undefined = False"
| "truthy (Str s) = (s \<noteq> [])"
| "truthy (Num n) = (n \<noteq> 0)"
| "truthy NaN = False"
| "truthy v = True"

text \<open>\<^verbatim>\<open>a < b\<close> on two strings or on two numbers; any other pair compares false.\<close>

fun js_lt :: "jsval \<Rightarrow> jsval \<Rightarrow> bool" where
  "js_lt (Str a) (Str b) = (a < b)"
| "js_lt (Num a) (Num b) = (a < b)"
| "js_lt a b = False"

text \<open>\<^verbatim>\<open>a - b\<close>: a number on two numbers, \<open>NaN\<close> as soon as one side is not a number.\<close>

fun js_minus :: "jsval \<Rightarrow> jsval \<Rightarrow> jsval" where
  "js_minus (Num a) (Num b) = Num (a - b)"
| "js_minus a b = NaN"

text \<open>
  The tests the source applies to a comparator result \<open>p\<close>: \<^verbatim>\<open>p >= 0\<close>, \<^verbatim>\<open>p <= 0\<close> and
  \<^verbatim>\<open>p === 0\<close>. A function value converts to \<open>NaN\<close>, on which every comparison is false.
\<close>

fun js_ge0 :: "jsval \<Rightarrow> bool" where
  "js_ge0 (Num n) = (0 \<le> n)"
| "js_ge0 v = False"

fun js_le0 :: "jsval \<Rightarrow> bool" where
  "js_le0 (Num n) = (n \<le> 0)"
| "js_le0 v = False"

fun js_is0 :: "jsval \<Rightarrow> bool" where
  "js_is0 (Num n) = (n = 0)"
| "js_is0 v = False"

section \<open>The 64-bit integers of the numeric key domain\<close>

text \<open>
  Modelled from the spec: the package \<^verbatim>\<open>long\<close> is an external collaborator of the
  repository; the spec describes numeric keys as 64-bit values addressed nibble by nibble.
  A \<^verbatim>\<open>Long\<close> is a 64-bit word with the 32-bit halves \<^verbatim>\<open>high\<close> and \<^verbatim>\<open>low\<close>. The shifts
  reduce their count modulo 64, \<^verbatim>\<open>fromNumber\<close> saturates outside the signed range and
  \<^verbatim>\<open>toNumber\<close> reads the word as a signed value.
\<close>

type_synonym long = "64 word"

definition high :: "long \<Rightarrow> 32 word" where
  "high w = ucast (drop_bit 32 w)"

definition low :: "long \<Rightarrow> 32 word" where
  "low w = ucast w"

definition shr_u :: "long \<Rightarrow> int \<Rightarrow> long" where
  "shr_u w numBits = drop_bit (nat (numBits mod 64)) w"

definition shl :: "long \<Rightarrow> int \<Rightarrow> long" where
  "shl w numBits = push_bit (nat (numBits mod 64)) w"

definition fromNumber :: "int \<Rightarrow> long" where
  "fromNumber v =
     (if v \<le> - (2 ^ 63) then 0x8000000000000000
      else if 2 ^ 63 \<le> v + 1 then 0x7FFFFFFFFFFFFFFF
      else if v < 0 then - word_of_int (- v)
      else word_of_int v)"

definition toNumber :: "long \<Rightarrow> int" where
  "toNumber w = sint w"

section \<open>Numeric keys\<close>

text \<open>The function \<^verbatim>\<open>cmp\<close>: the number of leading nibbles two 32-bit halves share.\<close>

definition cmp :: "32 word \<Rightarrow> 32 word \<Rightarrow> nat" where
  "cmp a b =
     (if a = b then 8
      else
        let (n1, a1, b1) =
              (if a AND 0xFFFF0000 = b AND 0xFFFF0000 then (4, a, b)
               else (0, signed_drop_bit 16 a, signed_drop_bit 16 b));
            (n2, a2, b2) =
              (if a1 AND 0xFF00 = b1 AND 0xFF00 then (n1 + 2, a1, b1)
               else (n1, signed_drop_bit 8 a1, signed_drop_bit 8 b1))
        in if a2 AND 0xF0 = b2 AND 0xF0 then n2 + 1 else n2)"

text \<open>The class \<^verbatim>\<open>NumericKey\<close>: a 64-bit value and a length in nibbles.\<close>

datatype numkey = NumericKey (nvalue: long) (nlength: nat)

definition new_NumericKey :: "int \<Rightarrow> nat \<Rightarrow> numkey" where
  "new_NumericKey num len = NumericKey (fromNumber num) len"

definition NumericKey_charAt :: "numkey \<Rightarrow> nat \<Rightarrow> int" where
  "NumericKey_charAt k pos =
     (let y = 64 - (int pos + 1) * 4 in uint (low (shr_u (nvalue k) y) AND 0xF))"

definition NumericKey_match :: "numkey \<Rightarrow> numkey \<Rightarrow> nat" where
  "NumericKey_match this other =
     (let a = nvalue this; b = nvalue other in
      if nlength this = nlength other \<and> high a = high b \<and> low a = low b then nlength this
      else
        let n = min (nlength this) (nlength other) in
        if 0 < n then
          (if high a = high b then min n (cmp (low a) (low b) + 8)
           else min n (cmp (high a) (high b)))
        else n)"

definition NumericKey_prefix :: "numkey \<Rightarrow> nat \<Rightarrow> numkey" where
  "NumericKey_prefix k n =
     (let y = 64 - int n * 4;
          num = toNumber (shl (shr_u (nvalue k) y) y)
      in new_NumericKey num n)"

definition NumericKey_toNumber :: "numkey \<Rightarrow> int" where
  "NumericKey_toNumber k = toNumber (nvalue k)"

text \<open>
  The units of a numeric key, as the spec words them: the nibbles of the key from the
  most significant one, as many as the key's length says.
\<close>

definition units :: "numkey \<Rightarrow> int list" where
  "units k = map (NumericKey_charAt k) [0..<nlength k]"

text \<open>The eight nibbles of a 32-bit half, the most significant first.\<close>

definition nibble32 :: "32 word \<Rightarrow> nat \<Rightarrow> int" where
  "nibble32 w i = uint (drop_bit (28 - 4 * i) w AND 0xF)"

definition nibbles32 :: "32 word \<Rightarrow> int list" where
  "nibbles32 w = map (nibble32 w) [0..<8]"

section \<open>Keys of both domains\<close>

text \<open>
  A key is a string, a \<^verbatim>\<open>NumericKey\<close>, or absent (\<open>NoKey\<close>: the value \<^verbatim>\<open>undefined\<close>
  that a lookup of a missing property or of a missing option yields).
\<close>

datatype key = StrKey string | NumKey numkey | NoKey

fun klength :: "key \<Rightarrow> nat" where
  "klength (StrKey s) = length s"
| "klength (NumKey k) = nlength k"
| "klength NoKey = 0"

text \<open>
  \<^verbatim>\<open>key.charAt(pos)\<close>: a one-character string (the empty string past the end) for a
  string key, a number from 0 to 15 for a numeric key.
\<close>

fun charAt :: "key \<Rightarrow> nat \<Rightarrow> jsval" where
  "charAt (StrKey s) pos = (if pos < length s then Str [s ! pos] else Str [])"
| "charAt (NumKey k) pos = Num (NumericKey_charAt k pos)"
| "charAt NoKey pos = Undefined"

section \<open>The pluggable key domains\<close>

text \<open>
  The options the engine works with: the two settings \<^verbatim>\<open>uniqueKeys\<close> and \<^verbatim>\<open>binSize\<close>
  and the functions of the key domain, taken from \<^verbatim>\<open>KEY_TYPES\<close> or from the caller's own
  options. \<^verbatim>\<open>setKey\<close> can raise; the other functions cannot on values of the domain.

  The model covers keys and values of the configured domain: strings in the string
  domain, integer numbers in the numeric domain, and objects that carry such a key under
  the configured attribute. On anything else \<^verbatim>\<open>createKey\<close> and \<^verbatim>\<open>getKey\<close> answer
  \<open>NoKey\<close>, and the facade below answers \<open>Unsupported\<close> before the root is touched, so
  that every stored value has a key of the domain. An attribute called \<^verbatim>\<open>values\<close>, which
  would collide with the member list of a \<^verbatim>\<open>MultiValue\<close>, is left out as well.
\<close>

record options =
  uniqueKeys :: bool
  binSize :: int
  createKey :: "jsval \<Rightarrow> key"
  getKey :: "jsval \<Rightarrow> key"
  setKey :: "jsval \<Rightarrow> key \<Rightarrow> error + jsval"
  comparator :: "jsval \<Rightarrow> jsval \<Rightarrow> jsval"
  match :: "key \<Rightarrow> key \<Rightarrow> nat"
  prefix_k :: "key \<Rightarrow> nat \<Rightarrow> key"
  emptyPrefix :: key

text \<open>
  The key-domain functions an options object holds, each one present or \<^verbatim>\<open>undefined\<close>
  (\<open>None\<close>).
\<close>

record key_functions =
  fcreateKey :: "(jsval \<Rightarrow> key) option"
  fgetKey :: "(jsval \<Rightarrow> key) option"
  fsetKey :: "(jsval \<Rightarrow> key \<Rightarrow> error + jsval) option"
  fcomparator :: "(jsval \<Rightarrow> jsval \<Rightarrow> jsval) option"
  fmatch :: "(key \<Rightarrow> key \<Rightarrow> nat) option"
  fprefix :: "(key \<Rightarrow> nat \<Rightarrow> key) option"
  femptyPrefix :: "key option"

definition no_functions :: key_functions where
  "no_functions =
     \<lparr> fcreateKey = None, fgetKey = None, fsetKey = None, fcomparator = None,
       fmatch = None, fprefix = None, femptyPrefix = None \<rparr>"

text \<open>
  The options a caller passes to the constructor. An absent entry is \<open>None\<close>; the
  source tests \<^verbatim>\<open>opts.attr\<close> for truthiness, so the empty string counts as absent.
  Besides the four documented settings a caller can pass key-domain functions of its own
  (\<open>cfunctions\<close>): the constructor spreads the caller's options last, so they take
  precedence over those of the type. A caller's function is modelled as one that returns
  on every argument (\<^verbatim>\<open>setKey\<close> apart, which may raise).
\<close>

record config =
  ctype :: "string option"
  cattr :: "string option"
  cuniqueKeys :: "bool option"
  cbinSize :: "int option"
  cfunctions :: key_functions

definition attr_of :: "config \<Rightarrow> string option" where
  "attr_of cfg = (case cattr cfg of Some a \<Rightarrow> (if a = [] then None else Some a) | None \<Rightarrow> None)"

text \<open>Reading a value as a key of the string domain, and a string key as a value.\<close>

fun str_key :: "jsval \<Rightarrow> key" where
  "str_key (Str s) = StrKey s"
| "str_key v = NoKey"

fun key_val :: "key \<Rightarrow> jsval" where
  "key_val (StrKey s) = Str s"
| "key_val k = Undefined"

text \<open>\<^verbatim>\<open>new NumericKey(x)\<close> on a number \<open>x\<close>, with the default length 16.\<close>

fun num_key :: "jsval \<Rightarrow> key" where
  "num_key (Num n) = NumKey (new_NumericKey n 16)"
| "num_key v = NoKey"

fun is_MultiValue :: "jsval \<Rightarrow> bool" where
  "is_MultiValue (MultiValue vs ps) = True"
| "is_MultiValue v = False"

subsection \<open>\<^verbatim>\<open>KEY_TYPES.string\<close>\<close>

definition string_createKey :: "jsval \<Rightarrow> key" where
  "string_createKey x = str_key x"

definition string_getKey :: "string option \<Rightarrow> jsval \<Rightarrow> key" where
  "string_getKey at x =
     (case at of
        Some a \<Rightarrow> str_key (get_prop x a)
      | None \<Rightarrow> (if is_MultiValue x then str_key (get_prop x ''key'') else str_key x))"

definition string_setKey :: "string option \<Rightarrow> jsval \<Rightarrow> key \<Rightarrow> error + jsval" where
  "string_setKey at v k =
     (case at of
        Some a \<Rightarrow> Inr (set_prop v a (key_val k))
      | None \<Rightarrow> (if is_MultiValue v then Inr (set_prop v ''key'' (key_val k)) else Inr (key_val k)))"

text \<open>
  With an attribute the comparator is three-way. Without one, the body of the source
  ends in \<^verbatim>\<open>return (a, b) => a < b ? -1 : (a > b ? 1 : 0)\<close>: it returns a function.
\<close>

definition string_comparator :: "string option \<Rightarrow> jsval \<Rightarrow> jsval \<Rightarrow> jsval" where
  "string_comparator at a b =
     (case at of
        Some attr \<Rightarrow>
          (let a' = get_prop a attr; b' = get_prop b attr
           in if js_lt a' b' then Num (- 1) else (if js_lt b' a' then Num 1 else Num 0))
      | None \<Rightarrow> Closure)"

function string_match_loop :: "string \<Rightarrow> string \<Rightarrow> nat \<Rightarrow> nat \<Rightarrow> nat" where
  "string_match_loop a b i n =
     (if i < n \<and> a ! i = b ! i then string_match_loop a b (Suc i) n else i)"
  by pat_completeness auto
termination
  by (relation "measure (\<lambda>(a, b, i, n). n - i)") auto

declare string_match_loop.simps [simp del]

fun string_match :: "key \<Rightarrow> key \<Rightarrow> nat" where
  "string_match (StrKey a) (StrKey b) = string_match_loop a b 0 (min (length a) (length b))"
| "string_match a b = 0"

fun string_prefix :: "key \<Rightarrow> nat \<Rightarrow> key" where
  "string_prefix (StrKey s) n = StrKey (take n s)"
| "string_prefix k n = NoKey"

subsection \<open>\<^verbatim>\<open>KEY_TYPES.number\<close>\<close>

definition number_createKey :: "jsval \<Rightarrow> key" where
  "number_createKey x = num_key x"

definition number_getKey :: "string option \<Rightarrow> jsval \<Rightarrow> key" where
  "number_getKey at x =
     (case at of
        Some a \<Rightarrow> num_key (get_prop x a)
      | None \<Rightarrow> num_key (if is_MultiValue x then get_prop x ''key'' else x))"

text \<open>
  With an attribute, \<^verbatim>\<open>setKey\<close> stores \<^verbatim>\<open>key.toNumber()\<close>. Without one it starts with
  \<^verbatim>\<open>key = key.value()\<close>; \<^verbatim>\<open>value\<close> is a data field of the key, not a method, so the call
  raises a TypeError whatever the key is.
\<close>

definition number_setKey :: "string option \<Rightarrow> jsval \<Rightarrow> key \<Rightarrow> error + jsval" where
  "number_setKey at v k =
     (case at of
        Some a \<Rightarrow>
          (case k of
             NumKey nk \<Rightarrow> Inr (set_prop v a (Num (NumericKey_toNumber nk)))
           | _ \<Rightarrow> Inl TypeError)
      | None \<Rightarrow> Inl TypeError)"

definition number_comparator :: "string option \<Rightarrow> jsval \<Rightarrow> jsval \<Rightarrow> jsval" where
  "number_comparator at a b =
     (case at of
        Some attr \<Rightarrow> js_minus (get_prop a attr) (get_prop b attr)
      | None \<Rightarrow> js_minus a b)"

fun number_match :: "key \<Rightarrow> key \<Rightarrow> nat" where
  "number_match (NumKey a) (NumKey b) = NumericKey_match a b"
| "number_match a b = 0"

fun number_prefix :: "key \<Rightarrow> nat \<Rightarrow> key" where
  "number_prefix (NumKey k) n = NumKey (NumericKey_prefix k n)"
| "number_prefix k n = NoKey"

subsection \<open>Resolving the options\<close>

definition DEFAULT_uniqueKeys :: bool where
  "DEFAULT_uniqueKeys = True"

definition DEFAULT_binSize :: int where
  "DEFAULT_binSize = 256"

definition config_uniqueKeys :: "config \<Rightarrow> bool" where
  "config_uniqueKeys cfg = (case cuniqueKeys cfg of Some u \<Rightarrow> u | None \<Rightarrow> DEFAULT_uniqueKeys)"

definition config_binSize :: "config \<Rightarrow> int" where
  "config_binSize cfg = (case cbinSize cfg of Some n \<Rightarrow> n | None \<Rightarrow> DEFAULT_binSize)"

text \<open>
  \<^verbatim>\<open>KEY_TYPES[type]\<close>, with the functions of the entry applied to the caller's options
  and merged with the defaults. The table is a plain object: besides its two own entries,
  a lookup finds the properties every object inherits (\<^verbatim>\<open>constructor\<close>, \<^verbatim>\<open>toString\<close>
  and so on), which are truthy but have no \<^verbatim>\<open>createKey\<close>. Any other name yields
  \<^verbatim>\<open>undefined\<close>, here \<open>None\<close>. The type defaults to \<^verbatim>\<open>'string'\<close>.
\<close>

datatype type_entry = Domain options | Inherited

definition Object_prototype_names :: "string list" where
  "Object_prototype_names =
     [''constructor'', ''__defineGetter__'', ''__defineSetter__'', ''hasOwnProperty'',
      ''__lookupGetter__'', ''__lookupSetter__'', ''isPrototypeOf'', ''propertyIsEnumerable'',
      ''toString'', ''valueOf'', ''__proto__'', ''toLocaleString'']"

definition KEY_TYPES :: "string \<Rightarrow> config \<Rightarrow> type_entry option" where
  "KEY_TYPES type cfg =
     (if type = ''string'' then
        Some (Domain
          \<lparr> uniqueKeys = config_uniqueKeys cfg, binSize = config_binSize cfg,
            createKey = string_createKey,
            getKey = string_getKey (attr_of cfg),
            setKey = string_setKey (attr_of cfg),
            comparator = string_comparator (attr_of cfg),
            match = string_match,
            prefix_k = string_prefix,
            emptyPrefix = StrKey [] \<rparr>)
      else if type = ''number'' then
        Some (Domain
          \<lparr> uniqueKeys = config_uniqueKeys cfg, binSize = config_binSize cfg,
            createKey = number_createKey,
            getKey = number_getKey (attr_of cfg),
            setKey = number_setKey (attr_of cfg),
            comparator = number_comparator (attr_of cfg),
            match = number_match,
            prefix_k = number_prefix,
            emptyPrefix = NumKey (new_NumericKey 0 0) \<rparr>)
      else if type \<in> set Object_prototype_names then Some Inherited
      else None)"

definition config_type :: "config \<Rightarrow> string" where
  "config_type cfg = (case ctype cfg of Some t \<Rightarrow> t | None \<Rightarrow> ''string'')"

text \<open>
  The object \<^verbatim>\<open>this.options = {...DEFAULT_OPTS, ...typeOpts, ...options}\<close>: the two
  settings, and each key-domain function, which is the caller's if the caller passed one,
  else the one of the type if \<^verbatim>\<open>KEY_TYPES\<close> has the type, else \<^verbatim>\<open>undefined\<close>.
\<close>

record trie_options =
  o_uniqueKeys :: bool
  o_binSize :: int
  o_functions :: key_functions

definition domain_functions :: "options \<Rightarrow> key_functions" where
  "domain_functions d =
     \<lparr> fcreateKey = Some (createKey d), fgetKey = Some (getKey d), fsetKey = Some (setKey d),
       fcomparator = Some (comparator d), fmatch = Some (match d), fprefix = Some (prefix_k d),
       femptyPrefix = Some (emptyPrefix d) \<rparr>"

definition spread :: "'a option \<Rightarrow> 'a option \<Rightarrow> 'a option" where
  "spread base later = (case later of Some x \<Rightarrow> Some x | None \<Rightarrow> base)"

definition merge_functions :: "key_functions \<Rightarrow> key_functions \<Rightarrow> key_functions" where
  "merge_functions base later =
     \<lparr> fcreateKey = spread (fcreateKey base) (fcreateKey later),
       fgetKey = spread (fgetKey base) (fgetKey later),
       fsetKey = spread (fsetKey base) (fsetKey later),
       fcomparator = spread (fcomparator base) (fcomparator later),
       fmatch = spread (fmatch base) (fmatch later),
       fprefix = spread (fprefix base) (fprefix later),
       femptyPrefix = spread (femptyPrefix base) (femptyPrefix later) \<rparr>"

definition merged_options :: "config \<Rightarrow> trie_options" where
  "merged_options cfg =
     \<lparr> o_uniqueKeys = config_uniqueKeys cfg,
       o_binSize = config_binSize cfg,
       o_functions =
         merge_functions
           (case KEY_TYPES (config_type cfg) cfg of
              Some (Domain d) \<Rightarrow> domain_functions d
            | _ \<Rightarrow> no_functions)
           (cfunctions cfg) \<rparr>"

text \<open>
  The options as the engine uses them, when the object holds all seven functions.
\<close>

definition resolve :: "trie_options \<Rightarrow> options option" where
  "resolve opts =
     (case fcreateKey (o_functions opts) of None \<Rightarrow> None | Some ck \<Rightarrow>
      (case fgetKey (o_functions opts) of None \<Rightarrow> None | Some gk \<Rightarrow>
      (case fsetKey (o_functions opts) of None \<Rightarrow> None | Some sk \<Rightarrow>
      (case fcomparator (o_functions opts) of None \<Rightarrow> None | Some c \<Rightarrow>
      (case fmatch (o_functions opts) of None \<Rightarrow> None | Some m \<Rightarrow>
      (case fprefix (o_functions opts) of None \<Rightarrow> None | Some p \<Rightarrow>
      (case femptyPrefix (o_functions opts) of None \<Rightarrow> None | Some ep \<Rightarrow>
         Some \<lparr> uniqueKeys = o_uniqueKeys opts, binSize = o_binSize opts,
                createKey = ck, getKey = gk, setKey = sk, comparator = c,
                match = m, prefix_k = p, emptyPrefix = ep \<rparr>)))))))"

section \<open>External utilities\<close>

text \<open>
  Modelled from the spec: sorting a bin and searching it by equality are external
  utilities (the array method \<^verbatim>\<open>sort\<close> and the package \<^verbatim>\<open>binary-search-bounds\<close>).
  The sort is a stable insertion sort; it reads a comparator result as a number, a result
  that is not a number counting as zero. The search is the bisection of the package's
  \<^verbatim>\<open>eq\<close>: it answers the index of an element on which the comparator is exactly zero,
  or \<open>- 1\<close>.
\<close>

fun sort_number :: "jsval \<Rightarrow> int" where
  "sort_number (Num n) = n"
| "sort_number v = 0"

fun insert_by :: "(jsval \<Rightarrow> jsval \<Rightarrow> jsval) \<Rightarrow> jsval \<Rightarrow> jsval list \<Rightarrow> jsval list" where
  "insert_by c x [] = [x]"
| "insert_by c x (y # ys) =
     (if sort_number (c x y) \<le> 0 then x # y # ys else y # insert_by c x ys)"

definition sort_by :: "(jsval \<Rightarrow> jsval \<Rightarrow> jsval) \<Rightarrow> jsval list \<Rightarrow> jsval list" where
  "sort_by c xs = foldr (insert_by c) xs []"

function bounds_eq_loop ::
  "jsval list \<Rightarrow> jsval \<Rightarrow> (jsval \<Rightarrow> jsval \<Rightarrow> jsval) \<Rightarrow> int \<Rightarrow> int \<Rightarrow> int" where
  "bounds_eq_loop a y c l h =
     (if l \<le> h then
        (let m = (l + h) div 2; x = a ! nat m; p = c x y in
         if js_is0 p then m
         else if js_le0 p then bounds_eq_loop a y c (m + 1) h
         else bounds_eq_loop a y c l (m - 1))
      else - 1)"
  by pat_completeness auto
termination
  by (relation "measure (\<lambda>(a, y, c, l, h). nat (h - l + 1))") auto

declare bounds_eq_loop.simps [simp del]

definition bounds_eq :: "jsval list \<Rightarrow> jsval \<Rightarrow> (jsval \<Rightarrow> jsval \<Rightarrow> jsval) \<Rightarrow> int" where
  "bounds_eq a y c = bounds_eq_loop a y c 0 (int (length a) - 1)"

section \<open>Helpers of the engine\<close>

text \<open>\<^verbatim>\<open>commonPrefix\<close>: the common key prefix of the first and the last value.\<close>

definition commonPrefix :: "jsval list \<Rightarrow> options \<Rightarrow> key" where
  "commonPrefix arr opts =
     (if length arr = 0 then emptyPrefix opts
      else if length arr = 1 then getKey opts (arr ! 0)
      else
        let first = getKey opts (arr ! 0);
            last = getKey opts (arr ! (length arr - 1));
            n = match opts first last
        in prefix_k opts first n)"

text \<open>
  \<^verbatim>\<open>assign\<close>: the value that takes the place of \<open>oldVal\<close>. A \<^verbatim>\<open>MultiValue\<close> is extended
  in place; a fresh one gets its key stamped by \<^verbatim>\<open>setKey\<close>, which may raise.
\<close>

definition assign :: "jsval \<Rightarrow> jsval \<Rightarrow> options \<Rightarrow> error + jsval" where
  "assign newVal oldVal opts =
     (if uniqueKeys opts \<or> oldVal = Undefined then Inr newVal
      else
        (case oldVal of
           MultiValue vs ps \<Rightarrow> Inr (MultiValue (vs @ [newVal]) ps)
         | _ \<Rightarrow> setKey opts (MultiValue [oldVal, newVal] []) (getKey opts newVal)))"

definition coerceArray :: "jsval list \<Rightarrow> jsval" where
  "coerceArray arr =
     (let n = length arr in if n = 0 then Undefined else (if n = 1 then arr ! 0 else Arr arr))"

section \<open>Nodes\<close>

text \<open>
  The jump table \<^verbatim>\<open>edges\<close> is a JavaScript array used as a dictionary. A unit that is
  a canonical array index (a number, or a string of decimal digits such as \<^verbatim>\<open>"7"\<close>) names
  an element of the array and makes the array's \<^verbatim>\<open>length\<close> at least one more than the
  index; any other unit names a plain property, which the \<^verbatim>\<open>length\<close> and the iteration
  \<^verbatim>\<open>for (... of this.edges)\<close> never see. Deleting an element leaves the \<^verbatim>\<open>length\<close> as it is.
\<close>

datatype pkey = Idx nat | Name string

definition digit_of :: "char \<Rightarrow> nat option" where
  "digit_of c =
     (let n = (of_char c :: nat) in if 48 \<le> n \<and> n \<le> 57 then Some (n - 48) else None)"

definition array_index :: "string \<Rightarrow> nat option" where
  "array_index s =
     (case s of
        [] \<Rightarrow> None
      | c # cs \<Rightarrow>
          (if c = CHR ''0'' \<and> cs \<noteq> [] then None
           else
             (case those (map digit_of s) of
                None \<Rightarrow> None
              | Some ds \<Rightarrow>
                  (let n = foldl (\<lambda>a d. 10 * a + d) 0 ds
                   in if int n < 2 ^ 32 - 1 then Some n else None))))"

text \<open>
  The property a unit names. Units are one-character strings, the empty string, nibbles
  from 0 to 15, or \<^verbatim>\<open>undefined\<close> (which names the property \<^verbatim>\<open>"undefined"\<close>).
\<close>

fun to_pkey :: "jsval \<Rightarrow> pkey" where
  "to_pkey (Str s) = (case array_index s of Some i \<Rightarrow> Idx i | None \<Rightarrow> Name s)"
| "to_pkey (Num n) = (if 0 \<le> n \<and> n < 2 ^ 32 - 1 then Idx (nat n) else Name ''-'')"
| "to_pkey Undefined = Name ''undefined''"
| "to_pkey v = Name ''[object Object]''"

text \<open>
  A node is terminal (\<^verbatim>\<open>edges\<close> is \<^verbatim>\<open>undefined\<close> and \<^verbatim>\<open>values\<close> is the bin, an array) or
  branching (\<^verbatim>\<open>edges\<close> is the jump table, given by its properties and its array
  \<^verbatim>\<open>length\<close>, and \<^verbatim>\<open>values\<close> is the internal value or \<^verbatim>\<open>undefined\<close>). The source assigns
  \<^verbatim>\<open>edges\<close> and \<^verbatim>\<open>values\<close> together wherever a node changes shape, so the two shapes are
  the two constructors. Both carry \<^verbatim>\<open>skip\<close> and \<^verbatim>\<open>dirty\<close>.
\<close>

datatype node =
    Terminal (skip: key) (bin: "jsval list") (dirty: bool)
  | Branch (skip: key) (edges: "(pkey \<times> node) list") (alen: nat) (ival: jsval) (dirty: bool)

text \<open>\<^verbatim>\<open>this.edges[x] = node\<close> on a branching node.\<close>

fun set_edge :: "pkey \<Rightarrow> node \<Rightarrow> node \<Rightarrow> node" where
  "set_edge x n (Branch sk es al iv d) =
     Branch sk (AList.update x n es) (case x of Idx i \<Rightarrow> max al (Suc i) | Name s \<Rightarrow> al) iv d"
| "set_edge x n (Terminal sk vs d) = Terminal sk vs d"

type_synonym 'a result = "(error + 'a) \<times> node"

subsection \<open>Sorting a bin and folding equal keys\<close>

text \<open>
  The loop of \<^verbatim>\<open>_sortValues\<close> that collapses entries with equal keys, on the array \<open>arr\<close>
  with the write index \<open>i\<close> and the read index \<open>j\<close>. When \<^verbatim>\<open>assign\<close> raises, the array
  stays as the loop has left it.
\<close>

function dedup :: "options \<Rightarrow> jsval list \<Rightarrow> nat \<Rightarrow> nat \<Rightarrow> (error + unit) \<times> jsval list" where
  "dedup opts arr i j =
     (if j < length arr then
        (if js_is0 (comparator opts (arr ! i) (arr ! j)) then
           (case assign (arr ! j) (arr ! i) opts of
              Inl e \<Rightarrow> (Inl e, arr)
            | Inr v \<Rightarrow> dedup opts (arr[i := v]) i (Suc j))
         else dedup opts (arr[Suc i := arr ! j]) (Suc i) (Suc j))
      else (Inr (), take (Suc i) arr))"
  by pat_completeness auto
termination
  by (relation "measure (\<lambda>(opts, arr, i, j). length arr - j)") auto

declare dedup.simps [simp del]

definition sortValues ::
  "options \<Rightarrow> jsval list \<Rightarrow> bool \<Rightarrow> (error + unit) \<times> jsval list \<times> bool" where
  "sortValues opts vs d =
     (if d then
        (let arr = sort_by (comparator opts) vs in
         if 1 < length arr then (case dedup opts arr 0 1 of (r, arr') \<Rightarrow> (r, arr', False))
         else (Inr (), arr, False))
      else (Inr (), vs, d))"

subsection \<open>Exploding a bin\<close>

text \<open>
  The two nested loops at the end of \<^verbatim>\<open>_explode\<close> cut the values into maximal runs of
  consecutive values with the same next unit. \<open>runs x acc ps\<close> continues the run of unit
  \<open>x\<close> collected in \<open>acc\<close> (in reverse) over the remaining pairs of unit and value.
\<close>

fun runs :: "jsval \<Rightarrow> jsval list \<Rightarrow> (jsval \<times> jsval) list \<Rightarrow> (jsval \<times> jsval list) list" where
  "runs x acc [] = [(x, rev acc)]"
| "runs x acc ((y, v) # ps) =
     (if x = y then runs x (v # acc) ps else (x, rev acc) # runs y [v] ps)"

fun groups :: "(jsval \<times> jsval) list \<Rightarrow> (jsval \<times> jsval list) list" where
  "groups [] = []"
| "groups ((x, v) # ps) = runs x [v] ps"

text \<open>
  \<^verbatim>\<open>_explode\<close> on a terminal node with the given \<^verbatim>\<open>skip\<close>, bin and \<^verbatim>\<open>dirty\<close> flag. Each
  run becomes a child built by \<^verbatim>\<open>new Node(values.slice(i, j), options)\<close>, whose
  constructor explodes in turn; the fuel bounds the depth of this recursion. When a
  constructor raises, the children made so far stay in the jump table.
\<close>

fun explode :: "nat \<Rightarrow> options \<Rightarrow> key \<Rightarrow> jsval list \<Rightarrow> bool \<Rightarrow> unit result" where
  "explode fuel opts sk vs d =
     (if int (length vs) \<le> binSize opts then (Inr (), Terminal sk vs d)
      else
        (case sortValues opts vs d of
           (Inl e, vs1, d1) \<Rightarrow> (Inl e, Terminal sk vs1 d1)
         | (Inr u, vs1, d1) \<Rightarrow>
             (if int (length vs1) \<le> binSize opts then (Inr (), Terminal sk vs1 d1)
              else
                (let sk1 = commonPrefix vs1 opts;
                     prefixLen = klength sk1;
                     nextChars =
                       map (\<lambda>v. let k = getKey opts v
                                 in if klength k = prefixLen then Undefined else charAt k prefixLen) vs1;
                     (iv, i) =
                       (case nextChars of
                          [] \<Rightarrow> (Undefined, 1)
                        | c # cs \<Rightarrow> (if c = Undefined then (vs1 ! 0, 1) else (Undefined, 0)))
                 in foldl
                      (\<lambda>(r, this) (x, slice).
                         (case r of
                            Inl e \<Rightarrow> (r, this)
                          | Inr u \<Rightarrow>
                              (case fuel of
                                 0 \<Rightarrow> (Inl OutOfFuel, this)
                               | Suc f \<Rightarrow>
                                   (case explode f opts (commonPrefix slice opts) slice False of
                                      (Inl e, child) \<Rightarrow> (Inl e, this)
                                    | (Inr u, child) \<Rightarrow> (Inr (), set_edge (to_pkey x) child this)))))
                      (Inr (), Branch sk1 [] 0 iv d1)
                      (groups (drop i (zip nextChars vs1)))))))"

declare explode.simps [simp del]

text \<open>The constructor \<^verbatim>\<open>new Node(values, options)\<close>.\<close>

definition Node_new :: "nat \<Rightarrow> options \<Rightarrow> jsval list \<Rightarrow> unit result" where
  "Node_new fuel opts vs = explode fuel opts (commonPrefix vs opts) vs False"

subsection \<open>Adding a value\<close>

text \<open>\<^verbatim>\<open>_insert\<close>: the new \<^verbatim>\<open>skip\<close>, bin and \<^verbatim>\<open>dirty\<close> flag of a terminal node.\<close>

definition insert_value ::
  "options \<Rightarrow> key \<Rightarrow> jsval \<Rightarrow> key \<Rightarrow> jsval list \<Rightarrow> bool \<Rightarrow> key \<times> jsval list \<times> bool" where
  "insert_value opts k v sk vs d =
     (let n = match opts k sk;
          sk1 = (if n \<noteq> klength sk then prefix_k opts sk n else sk);
          count = length vs;
          d1 = (if count \<noteq> 0 \<and> js_ge0 (comparator opts (vs ! (count - 1)) v) then True else d)
      in (sk1, vs @ [v], d1))"

text \<open>
  \<^verbatim>\<open>Node.add\<close>. The recursive calls are the one into a child and, after a split, the one
  on the node itself; the fuel bounds their number.
\<close>

fun Node_add :: "nat \<Rightarrow> options \<Rightarrow> key \<Rightarrow> jsval \<Rightarrow> node \<Rightarrow> unit result" where
  "Node_add fuel opts k v (Terminal sk vs d) =
     (case insert_value opts k v sk vs d of (sk1, vs1, d1) \<Rightarrow> explode fuel opts sk1 vs1 d1)"
| "Node_add fuel opts k v (Branch sk es al iv d) =
     (let n = match opts k sk in
      if n = klength sk then
        (if n = klength k then
           (case assign v iv opts of
              Inl e \<Rightarrow> (Inl e, Branch sk es al iv d)
            | Inr w \<Rightarrow> (Inr (), Branch sk es al w d))
         else
           (let x = to_pkey (charAt k (klength sk)) in
            case map_of es x of
              Some child \<Rightarrow>
                (case fuel of
                   0 \<Rightarrow> (Inl OutOfFuel, Branch sk es al iv d)
                 | Suc f \<Rightarrow>
                     (case Node_add f opts k v child of
                        (r, child') \<Rightarrow> (r, Branch sk (AList.update x child' es) al iv d)))
            | None \<Rightarrow>
                (case Node_new fuel opts [v] of
                   (Inl e, child) \<Rightarrow> (Inl e, Branch sk es al iv d)
                 | (Inr u, child) \<Rightarrow> (Inr (), set_edge x child (Branch sk es al iv d)))))
      else
        (let pre = prefix_k opts sk n;
             cx = to_pkey (charAt sk (klength pre))
         in case Node_new fuel opts [] of
              (Inl e, child0) \<Rightarrow> (Inl e, Branch sk es al iv d)
            | (Inr u, child0) \<Rightarrow>
                (let child = Branch sk es al iv (dirty child0);
                     this = set_edge cx child (Branch pre [] 0 Undefined d)
                 in case fuel of
                      0 \<Rightarrow> (Inl OutOfFuel, this)
                    | Suc f \<Rightarrow> Node_add f opts k v this)))"

declare Node_add.simps [simp del]

subsection \<open>Looking a key up\<close>

text \<open>\<^verbatim>\<open>_search\<close> on a terminal node: sort the bin if dirty, then search it by equality.\<close>

definition search :: "options \<Rightarrow> key \<Rightarrow> key \<Rightarrow> jsval list \<Rightarrow> bool \<Rightarrow> jsval result" where
  "search opts k sk vs d =
     (case sortValues opts vs d of
        (Inl e, vs1, d1) \<Rightarrow> (Inl e, Terminal sk vs1 d1)
      | (Inr u, vs1, d1) \<Rightarrow>
          (case setKey opts (Obj []) k of
             Inl e \<Rightarrow> (Inl e, Terminal sk vs1 d1)
           | Inr needle \<Rightarrow>
               (let idx = bounds_eq vs1 needle (comparator opts)
                in (Inr (if idx < 0 then Undefined else vs1 ! nat idx), Terminal sk vs1 d1))))"

text \<open>\<^verbatim>\<open>Node.get\<close>, that is \<^verbatim>\<open>find\<close> with the callback of \<^verbatim>\<open>get\<close>.\<close>

function Node_get :: "options \<Rightarrow> key \<Rightarrow> node \<Rightarrow> jsval result" where
  "Node_get opts k (Terminal sk vs d) =
     (let n = match opts k sk in
      if n \<noteq> klength sk then (Inr Undefined, Terminal sk vs d)
      else search opts k sk vs d)"
| "Node_get opts k (Branch sk es al iv d) =
     (let n = match opts k sk in
      if n \<noteq> klength sk then (Inr Undefined, Branch sk es al iv d)
      else if n = klength k then (Inr iv, Branch sk es al iv d)
      else
        (let x = to_pkey (charAt k (klength sk)) in
         case map_of es x of
           None \<Rightarrow> (Inr Undefined, Branch sk es al iv d)
         | Some child \<Rightarrow>
             (case Node_get opts k child of
                (r, child') \<Rightarrow> (r, Branch sk (AList.update x child' es) al iv d))))"
  by pat_completeness auto
termination
proof (relation "measure (\<lambda>(opts, k, n). size n)")
  show "wf (measure (\<lambda>(opts, k, n). size n))"
    by simp
next
  fix opts :: options and k sk :: key and es :: "(pkey \<times> node) list" and al :: nat
    and iv :: jsval and d :: bool and xa :: nat and xb :: pkey and x2 :: node
  assume look: "map_of es xb = Some x2"
  have "map_of ps y = Some (c :: node) \<Longrightarrow> size c < Suc (size_list (size_prod (\<lambda>x. 0) size) ps)"
    for ps :: "(pkey \<times> node) list" and y c
    by (induction ps) (auto split: if_splits)
  from this [OF look]
  show "((opts, k, x2), (opts, k, Branch sk es al iv d)) \<in> measure (\<lambda>(opts, k, n). size n)"
    by simp
qed

declare Node_get.simps [simp del]

subsection \<open>Deleting\<close>

text \<open>
  \<^verbatim>\<open>_delete(val, filter)\<close> answers the pair \<^verbatim>\<open>[keep, removed]\<close>. On a \<^verbatim>\<open>MultiValue\<close> it
  also replaces the member list of \<^verbatim>\<open>val\<close> by the kept members, in place; the third
  component is \<^verbatim>\<open>val\<close> after the call.

  A filter is an optional function of the caller. Applied to a value it answers a truth
  value or raises (as \<^verbatim>\<open>x => x.v === 2\<close> does on \<^verbatim>\<open>undefined\<close>); what it raises leaves
  the engine through every caller. \<open>accepts f x\<close> is the test
  \<^verbatim>\<open>filter === undefined || filter(x)\<close>. When the filter raises inside \<^verbatim>\<open>_delete\<close>, the
  member list of \<^verbatim>\<open>val\<close> has not been replaced yet.
\<close>

type_synonym filter = "(jsval \<Rightarrow> error + bool) option"

definition accepts :: "filter \<Rightarrow> jsval \<Rightarrow> error + bool" where
  "accepts f x = (case f of None \<Rightarrow> Inr True | Some p \<Rightarrow> p x)"

text \<open>
  The loop \<^verbatim>\<open>val.values.forEach\<close> of \<^verbatim>\<open>_delete\<close>, with the lists \<open>keep\<close> and
  \<open>removed\<close> collected so far.
\<close>

fun split_members ::
  "filter \<Rightarrow> jsval list \<Rightarrow> jsval list \<Rightarrow> jsval list \<Rightarrow> error + (jsval list \<times> jsval list)" where
  "split_members f [] keep removed = Inr (keep, removed)"
| "split_members f (x # xs) keep removed =
     (case accepts f x of
        Inl e \<Rightarrow> Inl e
      | Inr b \<Rightarrow>
          (if b then split_members f xs keep (removed @ [x])
           else split_members f xs (keep @ [x]) removed))"

fun delete_value :: "jsval \<Rightarrow> filter \<Rightarrow> error + (jsval \<times> jsval \<times> jsval)" where
  "delete_value (MultiValue vs ps) f =
     (case split_members f vs [] [] of
        Inl e \<Rightarrow> Inl e
      | Inr (keep, removed) \<Rightarrow>
          (let val = MultiValue keep ps
           in Inr ((if 1 < length keep then val else coerceArray keep), coerceArray removed, val)))"
| "delete_value val f =
     (case accepts f val of
        Inl e \<Rightarrow> Inl e
      | Inr b \<Rightarrow> (if b then Inr (Undefined, val, val) else Inr (val, Undefined, val)))"

text \<open>
  The loop \<^verbatim>\<open>for (const node of this.edges) { child = node; edgeCount++ }\<close> visits the
  array indices below the \<^verbatim>\<open>length\<close>, holes included (a hole reads \<^verbatim>\<open>undefined\<close>, here
  \<open>None\<close>), and no plain property.
\<close>

definition count_edges ::
  "(pkey \<times> node) list \<Rightarrow> nat \<Rightarrow> node option \<Rightarrow> node option \<times> nat" where
  "count_edges es al child =
     foldl (\<lambda>(child, edgeCount) i. (map_of es (Idx i), edgeCount + 1)) (child, 0) [0..<al]"

text \<open>\<^verbatim>\<open>_compact(path, child)\<close> on the node \<open>this\<close>.\<close>

fun compact :: "pkey \<Rightarrow> node \<Rightarrow> node \<Rightarrow> unit result" where
  "compact path (Terminal csk cvs cd) (Branch sk es al iv d) =
     (if cvs = [] then
        (let es1 = AList.delete path es in
         case count_edges es1 al (Some (Terminal csk cvs cd)) of
           (child, edgeCount) \<Rightarrow>
             (if edgeCount = 0 then
                (Inr (), Terminal sk (if truthy iv then [iv] else []) False)
              else if edgeCount = 1 \<and> iv = Undefined then
                (case child of
                   None \<Rightarrow> (Inl TypeError, Branch sk es1 al iv d)
                 | Some c \<Rightarrow> (Inr (), c))
              else (Inr (), Branch sk es1 al iv d)))
      else (Inr (), Branch sk es al iv d))"
| "compact path child this = (Inr (), this)"

text \<open>\<^verbatim>\<open>Node.delete\<close>.\<close>

function Node_delete :: "options \<Rightarrow> key \<Rightarrow> filter \<Rightarrow> node \<Rightarrow> jsval result" where
  "Node_delete opts k f (Terminal sk vs d) =
     (let n = match opts k sk in
      if n \<noteq> klength sk then (Inr Undefined, Terminal sk vs d)
      else
        (case sortValues opts vs d of
           (Inl e, vs1, d1) \<Rightarrow> (Inl e, Terminal sk vs1 d1)
         | (Inr u, vs1, d1) \<Rightarrow>
             (case setKey opts (Obj []) k of
                Inl e \<Rightarrow> (Inl e, Terminal sk vs1 d1)
              | Inr needle \<Rightarrow>
                  (let idx = bounds_eq vs1 needle (comparator opts) in
                   if 0 \<le> idx then
                     (case delete_value (vs1 ! nat idx) f of
                        Inl e \<Rightarrow> (Inl e, Terminal sk vs1 d1)
                      | Inr (keep, removed, val) \<Rightarrow>
                          (if keep = Undefined then
                             (Inr removed, Terminal sk (take (nat idx) vs1 @ drop (Suc (nat idx)) vs1) d1)
                           else (Inr removed, Terminal sk (vs1[nat idx := val]) d1)))
                   else (Inr Undefined, Terminal sk vs1 d1)))))"
| "Node_delete opts k f (Branch sk es al iv d) =
     (let n = match opts k sk in
      if n \<noteq> klength sk then (Inr Undefined, Branch sk es al iv d)
      else if n = klength k then
        (case delete_value iv f of
           Inl e \<Rightarrow> (Inl e, Branch sk es al iv d)
         | Inr (keep, removed, val) \<Rightarrow> (Inr removed, Branch sk es al keep d))
      else
        (let x = to_pkey (charAt k (klength sk)) in
         case map_of es x of
           Some child \<Rightarrow>
             (case Node_delete opts k f child of
                (Inl e, child') \<Rightarrow> (Inl e, Branch sk (AList.update x child' es) al iv d)
              | (Inr ret, child') \<Rightarrow>
                  (if ret \<noteq> Undefined then
                     (case compact x child' (Branch sk (AList.update x child' es) al iv d) of
                        (Inl e, this) \<Rightarrow> (Inl e, this)
                      | (Inr u, this) \<Rightarrow> (Inr ret, this))
                   else (Inr ret, Branch sk (AList.update x child' es) al iv d)))
         | None \<Rightarrow> (Inr Undefined, Branch sk es al iv d)))"
  by pat_completeness auto
termination
proof (relation "measure (\<lambda>(opts, k, f, n). size n)")
  show "wf (measure (\<lambda>(opts, k, f, n). size n))"
    by simp
next
  fix opts :: options and k sk :: key and f :: filter and es :: "(pkey \<times> node) list"
    and al :: nat and iv :: jsval and d :: bool and xa :: nat and xb :: pkey and x2 :: node
  assume look: "map_of es xb = Some x2"
  have "map_of ps y = Some (c :: node) \<Longrightarrow> size c < Suc (size_list (size_prod (\<lambda>x. 0) size) ps)"
    for ps :: "(pkey \<times> node) list" and y c
    by (induction ps) (auto split: if_splits)
  from this [OF look]
  show "((opts, k, f, x2), (opts, k, f, Branch sk es al iv d)) \<in> measure (\<lambda>(opts, k, f, n). size n)"
    by simp
qed

declare Node_delete.simps [simp del]

section \<open>The facade\<close>

text \<open>
  A trie holds its root and the merged options object.
\<close>

record trie =
  root :: node
  options :: trie_options

text \<open>
  The call \<^verbatim>\<open>new Node([], options)\<close> of the constructor. On the empty list the
  constructor of a node calls no function of the options: it reads \<^verbatim>\<open>emptyPrefix\<close>
  (which may be \<^verbatim>\<open>undefined\<close>) as the \<^verbatim>\<open>skip\<close> and compares the length 0 with
  \<^verbatim>\<open>binSize\<close>. With a negative \<^verbatim>\<open>binSize\<close> \<^verbatim>\<open>_explode\<close> goes on, reads
  \<^verbatim>\<open>this.skip.length\<close>, which raises on \<^verbatim>\<open>undefined\<close>, and leaves a branching node
  without edges. When the options hold all functions this is \<open>Node_new\<close>.
\<close>

definition new_root :: "trie_options \<Rightarrow> error + node" where
  "new_root opts =
     (case resolve opts of
        Some ropts \<Rightarrow>
          (case Node_new 0 ropts [] of
             (Inl e, r) \<Rightarrow> Inl e
           | (Inr u, r) \<Rightarrow> Inr r)
      | None \<Rightarrow>
          (case femptyPrefix (o_functions opts) of
             None \<Rightarrow>
               (if 0 \<le> o_binSize opts then Inr (Terminal NoKey [] False) else Inl TypeError)
           | Some ep \<Rightarrow>
               (if 0 \<le> o_binSize opts then Inr (Terminal ep [] False)
                else Inr (Branch ep [] 0 Undefined False))))"

text \<open>
  The constructor. With the name of a property that every object inherits,
  \<^verbatim>\<open>typeOpts.createKey(options)\<close> calls \<^verbatim>\<open>undefined\<close> and raises. With a type that
  \<^verbatim>\<open>KEY_TYPES\<close> does not have, the guard \<^verbatim>\<open>if (typeOpts)\<close> skips the resolution and the
  options hold the caller's own functions only.
\<close>

definition Trie_new :: "config \<Rightarrow> error + trie" where
  "Trie_new cfg =
     (case KEY_TYPES (config_type cfg) cfg of
        Some Inherited \<Rightarrow> Inl TypeError
      | _ \<Rightarrow>
          (case new_root (merged_options cfg) of
             Inl e \<Rightarrow> Inl e
           | Inr r \<Rightarrow> Inr \<lparr> root = r, options = merged_options cfg \<rparr>))"

text \<open>
  The three operations answer a result and the trie after the call. Each starts with a
  call of \<^verbatim>\<open>options.getKey\<close> or \<^verbatim>\<open>options.createKey\<close> and then, as the first thing the
  root does, of \<^verbatim>\<open>options.match\<close>; where one of these is \<^verbatim>\<open>undefined\<close> the call raises
  a TypeError before the root is touched. Options that hold these but lack another
  function are outside the model (\<open>Unsupported\<close>).
\<close>

definition Trie_add :: "nat \<Rightarrow> trie \<Rightarrow> jsval \<Rightarrow> (error + unit) \<times> trie" where
  "Trie_add fuel t v =
     (case fgetKey (o_functions (options t)) of
        None \<Rightarrow> (Inl TypeError, t)
      | Some gk \<Rightarrow>
          (if gk v = NoKey then (Inl Unsupported, t)
           else
             (case fmatch (o_functions (options t)) of
                None \<Rightarrow> (Inl TypeError, t)
              | Some m \<Rightarrow>
                  (case resolve (options t) of
                     None \<Rightarrow> (Inl Unsupported, t)
                   | Some opts \<Rightarrow>
                       (case Node_add fuel opts (getKey opts v) v (root t) of
                          (r, root') \<Rightarrow> (r, t\<lparr>root := root'\<rparr>))))))"

text \<open>
  \<^verbatim>\<open>ret.filter(x => filter(x))\<close> on the members of a \<^verbatim>\<open>MultiValue\<close>: the filter is
  applied to the members in turn, and the first one it raises on ends the call.
\<close>

fun filter_members :: "(jsval \<Rightarrow> error + bool) \<Rightarrow> jsval list \<Rightarrow> error + jsval list" where
  "filter_members p [] = Inr []"
| "filter_members p (x # xs) =
     (case p x of
        Inl e \<Rightarrow> Inl e
      | Inr b \<Rightarrow>
          (case filter_members p xs of
             Inl e \<Rightarrow> Inl e
           | Inr ys \<Rightarrow> Inr (if b then x # ys else ys)))"

definition Trie_get :: "trie \<Rightarrow> jsval \<Rightarrow> filter \<Rightarrow> (error + jsval) \<times> trie" where
  "Trie_get t k f =
     (case fcreateKey (o_functions (options t)) of
        None \<Rightarrow> (Inl TypeError, t)
      | Some ck \<Rightarrow>
          (if ck k = NoKey then (Inl Unsupported, t)
           else
             (case fmatch (o_functions (options t)) of
                None \<Rightarrow> (Inl TypeError, t)
              | Some m \<Rightarrow>
                  (case resolve (options t) of
                     None \<Rightarrow> (Inl Unsupported, t)
                   | Some opts \<Rightarrow>
                       (case Node_get opts (createKey opts k) (root t) of
                          (Inl e, root') \<Rightarrow> (Inl e, t\<lparr>root := root'\<rparr>)
                        | (Inr ret, root') \<Rightarrow>
                            ((case ret of
                                MultiValue vs ps \<Rightarrow>
                                  (case f of
                                     Some p \<Rightarrow>
                                       (case filter_members p vs of
                                          Inl e \<Rightarrow> Inl e
                                        | Inr ws \<Rightarrow> Inr (coerceArray ws))
                                   | None \<Rightarrow> Inr (coerceArray vs))
                              | _ \<Rightarrow>
                                  (case accepts f ret of
                                     Inl e \<Rightarrow> Inl e
                                   | Inr b \<Rightarrow> Inr (if b then ret else Undefined))),
                             t\<lparr>root := root'\<rparr>))))))"

definition Trie_delete :: "trie \<Rightarrow> jsval \<Rightarrow> filter \<Rightarrow> (error + jsval) \<times> trie" where
  "Trie_delete t k f =
     (case fcreateKey (o_functions (options t)) of
        None \<Rightarrow> (Inl TypeError, t)
      | Some ck \<Rightarrow>
          (if ck k = NoKey then (Inl Unsupported, t)
           else
             (case fmatch (o_functions (options t)) of
                None \<Rightarrow> (Inl TypeError, t)
              | Some m \<Rightarrow>
                  (case resolve (options t) of
                     None \<Rightarrow> (Inl Unsupported, t)
                   | Some opts \<Rightarrow>
                       (case Node_delete opts (createKey opts k) f (root t) of
                          (Inl e, root') \<Rightarrow> (Inl e, t\<lparr>root := root'\<rparr>)
                        | (Inr ret, root') \<Rightarrow>
                            (Inr ret,
                             t\<lparr>root :=
                                 (case root' of
                                    Terminal sk vs d \<Rightarrow>
                                      (if vs = [] then Terminal (emptyPrefix opts) vs d else root')
                                  | Branch sk es al iv d \<Rightarrow> root')\<rparr>))))))"

section \<open>Configurations and values of the scenarios\<close>

text \<open>The default configuration: string keys, the values are their own keys.\<close>

definition default_config :: config where
  "default_config = \<lparr> ctype = None, cattr = None, cuniqueKeys = None, cbinSize = None,
       cfunctions = no_functions \<rparr>"

text \<open>Numeric keys, \<^verbatim>\<open>uniqueKeys = true\<close>, no attribute.\<close>

definition numeric_config :: config where
  "numeric_config =
     \<lparr> ctype = Some ''number'', cattr = None, cuniqueKeys = Some True, cbinSize = None,
       cfunctions = no_functions \<rparr>"

text \<open>String keys with \<^verbatim>\<open>binSize = 1\<close>, so that two values make the root branch.\<close>

definition small_bin_config :: config where
  "small_bin_config = \<lparr> ctype = None, cattr = None, cuniqueKeys = None, cbinSize = Some 1,
       cfunctions = no_functions \<rparr>"

text \<open>The same with the key stored under the attribute \<^verbatim>\<open>k\<close> of each value.\<close>

definition small_bin_attr_config :: config where
  "small_bin_attr_config =
     \<lparr> ctype = None, cattr = Some ''k'', cuniqueKeys = None, cbinSize = Some 1,
       cfunctions = no_functions \<rparr>"

text \<open>Duplicate keys under the attribute \<^verbatim>\<open>k\<close>, \<^verbatim>\<open>binSize = 4\<close>.\<close>

definition duplicates_config :: config where
  "duplicates_config =
     \<lparr> ctype = None, cattr = Some ''k'', cuniqueKeys = Some False, cbinSize = Some 4,
       cfunctions = no_functions \<rparr>"

text \<open>Numeric keys, duplicate keys allowed, no attribute, \<^verbatim>\<open>binSize = 2\<close>.\<close>

definition numeric_duplicates_config :: config where
  "numeric_duplicates_config =
     \<lparr> ctype = Some ''number'', cattr = None, cuniqueKeys = Some False, cbinSize = Some 2,
       cfunctions = no_functions \<rparr>"


text \<open>The value \<^verbatim>\<open>{k: s}\<close> and the value \<^verbatim>\<open>{k: s, v: n}\<close>.\<close>

definition keyed :: "string \<Rightarrow> jsval" where
  "keyed s = Obj [(''k'', Str s)]"

definition keyed_v :: "string \<Rightarrow> int \<Rightarrow> jsval" where
  "keyed_v s n = Obj [(''k'', Str s), (''v'', Num n)]"

text \<open>
  The filter \<^verbatim>\<open>x => x.v === n\<close>. Reading a property of \<^verbatim>\<open>undefined\<close> raises a
  TypeError; any other value without the property \<^verbatim>\<open>v\<close> reads \<^verbatim>\<open>undefined\<close> there.
\<close>

fun v_is :: "int \<Rightarrow> jsval \<Rightarrow> error + bool" where
  "v_is n Undefined = Inl TypeError"
| "v_is n x = Inr (get_prop x ''v'' = Num n)"


text \<open>
  The trie after \<^verbatim>\<open>add({k:"a",v:1})\<close>, \<^verbatim>\<open>add({k:"a",v:2})\<close>, \<^verbatim>\<open>add({k:"b",v:3})\<close> under
  \<open>duplicates_config\<close>: the three values sit in the root's bin, which is dirty.
\<close>

definition duplicates_trie :: trie where
  "duplicates_trie =
     \<lparr> root = Terminal (StrKey []) [keyed_v ''a'' 1, keyed_v ''a'' 2, keyed_v ''b'' 3] True,
       options = merged_options duplicates_config \<rparr>"


text \<open>
  The bin bound as the spec words it: every terminal node's bin holds values of at most
  \<^verbatim>\<open>binSize\<close> distinct keys.
\<close>

definition distinct_key_count :: "options \<Rightarrow> jsval list \<Rightarrow> nat" where
  "distinct_key_count opts vs = length (remdups (map (getKey opts) vs))"

fun bins_within :: "options \<Rightarrow> node \<Rightarrow> bool" where
  "bins_within opts (Terminal sk vs d) = (int (distinct_key_count opts vs) \<le> binSize opts)"
| "bins_within opts (Branch sk es al iv d) = list_all (\<lambda>p. bins_within opts (snd p)) es"


text \<open>
  Caller's options for a type of their own, \<^verbatim>\<open>'bytes'\<close>: the caller passes the seven
  key-domain functions (here those of string keys under the attribute \<^verbatim>\<open>k\<close>).
\<close>

definition custom_type_config :: config where
  "custom_type_config =
     \<lparr> ctype = Some ''bytes'', cattr = None, cuniqueKeys = None, cbinSize = None,
       cfunctions =
         \<lparr> fcreateKey = Some string_createKey,
           fgetKey = Some (string_getKey (Some ''k'')),
           fsetKey = Some (string_setKey (Some ''k'')),
           fcomparator = Some (string_comparator (Some ''k'')),
           fmatch = Some string_match,
           fprefix = Some string_prefix,
           femptyPrefix = Some (StrKey []) \<rparr> \<rparr>"

section \<open>Properties of the numeric key domain\<close>

subsection \<open>Nibbles of a 32-bit half\<close>

lemma uint_eq_32: "(uint a = uint (b::32 word)) = (a = b)"
  by (simp add: word_uint_eq_iff)

lemma word32_eq_bits: "(x = (y::32 word)) = (\<forall>n<32. bit x n = bit y n)"
  by (auto simp: bit_eq_iff dest: bit_imp_le_length)

lemma charAt_high_half:
  "NumericKey_charAt (NumericKey v l) 0 = nibble32 (high v) 0"
  "NumericKey_charAt (NumericKey v l) 1 = nibble32 (high v) 1"
  "NumericKey_charAt (NumericKey v l) 2 = nibble32 (high v) 2"
  "NumericKey_charAt (NumericKey v l) 3 = nibble32 (high v) 3"
  "NumericKey_charAt (NumericKey v l) 4 = nibble32 (high v) 4"
  "NumericKey_charAt (NumericKey v l) 5 = nibble32 (high v) 5"
  "NumericKey_charAt (NumericKey v l) 6 = nibble32 (high v) 6"
  "NumericKey_charAt (NumericKey v l) 7 = nibble32 (high v) 7"
  apply (simp_all add: NumericKey_charAt_def nibble32_def shr_u_def high_def low_def uint_eq_32)
  apply (simp_all add: word32_eq_bits)
  apply (simp_all add: bit_simps All_less_Suc eval_nat_numeral)
  done

lemma charAt_low_half:
  "NumericKey_charAt (NumericKey v l) 8 = nibble32 (low v) 0"
  "NumericKey_charAt (NumericKey v l) 9 = nibble32 (low v) 1"
  "NumericKey_charAt (NumericKey v l) 10 = nibble32 (low v) 2"
  "NumericKey_charAt (NumericKey v l) 11 = nibble32 (low v) 3"
  "NumericKey_charAt (NumericKey v l) 12 = nibble32 (low v) 4"
  "NumericKey_charAt (NumericKey v l) 13 = nibble32 (low v) 5"
  "NumericKey_charAt (NumericKey v l) 14 = nibble32 (low v) 6"
  "NumericKey_charAt (NumericKey v l) 15 = nibble32 (low v) 7"
  apply (simp_all add: NumericKey_charAt_def nibble32_def shr_u_def high_def low_def uint_eq_32)
  apply (simp_all add: word32_eq_bits)
  apply (simp_all add: bit_simps All_less_Suc eval_nat_numeral)
  done

lemma word32_eq_nibbles:
  "(a = (b::32 word)) =
     (nibble32 a 0 = nibble32 b 0 \<and> nibble32 a 1 = nibble32 b 1 \<and>
      nibble32 a 2 = nibble32 b 2 \<and> nibble32 a 3 = nibble32 b 3 \<and>
      nibble32 a 4 = nibble32 b 4 \<and> nibble32 a 5 = nibble32 b 5 \<and>
      nibble32 a 6 = nibble32 b 6 \<and> nibble32 a 7 = nibble32 b 7)"
  apply (simp add: nibble32_def uint_eq_32)
  apply (simp add: word32_eq_bits)
  apply (simp add: bit_simps All_less_Suc eval_nat_numeral conj_ac)
  done

lemma upper_half_eq_nibbles:
  "(a AND 0xFFFF0000 = b AND (0xFFFF0000::32 word)) =
     (nibble32 a 0 = nibble32 b 0 \<and> nibble32 a 1 = nibble32 b 1 \<and>
      nibble32 a 2 = nibble32 b 2 \<and> nibble32 a 3 = nibble32 b 3)"
  apply (simp add: nibble32_def uint_eq_32)
  apply (simp add: word32_eq_bits)
  apply (simp add: bit_simps All_less_Suc eval_nat_numeral)
  done

lemma second_byte_eq_nibbles:
  "(a AND 0xFF00 = b AND (0xFF00::32 word)) =
     (nibble32 a 4 = nibble32 b 4 \<and> nibble32 a 5 = nibble32 b 5)"
  apply (simp add: nibble32_def uint_eq_32)
  apply (simp add: word32_eq_bits)
  apply (simp add: bit_simps All_less_Suc eval_nat_numeral)
  done

lemma high_nibble_eq_nibbles:
  "(a AND 0xF0 = b AND (0xF0::32 word)) = (nibble32 a 6 = nibble32 b 6)"
  apply (simp add: nibble32_def uint_eq_32)
  apply (simp add: word32_eq_bits)
  apply (simp add: bit_simps All_less_Suc eval_nat_numeral)
  done

lemma nibble32_shifted:
  "nibble32 (signed_drop_bit 16 a) 4 = nibble32 a 0"
  "nibble32 (signed_drop_bit 16 a) 5 = nibble32 a 1"
  "nibble32 (signed_drop_bit 16 a) 6 = nibble32 a 2"
  "nibble32 (signed_drop_bit 8 a) 6 = nibble32 a 4"
  "nibble32 (signed_drop_bit 8 (signed_drop_bit 16 a)) 6 = nibble32 a 0"
  apply (simp_all add: nibble32_def uint_eq_32)
  apply (simp_all add: word32_eq_bits)
  apply (simp_all add: bit_simps All_less_Suc eval_nat_numeral)
  done

lemma upt_8: "[0..<8] = [0, 1, 2, 3, 4, 5, 6, 7]"
  by (simp add: upt_rec)

lemma upt_16: "[0..<16] = [0, 1, 2, 3, 4, 5, 6, 7, 8, 9, 10, 11, 12, 13, 14, 15]"
  by (simp add: upt_rec)

lemma cmp_decision_tree:
  "cmp a b =
     (if a = b then 8
      else if a AND 0xFFFF0000 = b AND 0xFFFF0000 then
        (if a AND 0xFF00 = b AND 0xFF00 then (if a AND 0xF0 = b AND 0xF0 then 7 else 6)
         else (if signed_drop_bit 8 a AND 0xF0 = signed_drop_bit 8 b AND 0xF0 then 5 else 4))
      else
        (if signed_drop_bit 16 a AND 0xFF00 = signed_drop_bit 16 b AND 0xFF00 then
           (if signed_drop_bit 16 a AND 0xF0 = signed_drop_bit 16 b AND 0xF0 then 3 else 2)
         else (if signed_drop_bit 8 (signed_drop_bit 16 a) AND 0xF0 =
                  signed_drop_bit 8 (signed_drop_bit 16 b) AND 0xF0 then 1 else 0)))"
  by (simp add: cmp_def)

lemma cmp_le_8: "cmp a b \<le> 8"
  by (simp add: cmp_decision_tree)

lemma cmp_common_nibbles:
  "cmp a b = length (longest_common_prefix (nibbles32 a) (nibbles32 b))"
  unfolding cmp_decision_tree nibbles32_def upt_8
  apply (simp only: upper_half_eq_nibbles second_byte_eq_nibbles high_nibble_eq_nibbles
      nibble32_shifted)
  apply (simp only: word32_eq_nibbles [of a b])
  apply (cases "nibble32 a 0 = nibble32 b 0"; simp)
  done

lemma nibbles32_eq_iff: "(nibbles32 a = nibbles32 b) = (a = b)"
  unfolding nibbles32_def upt_8 by (simp add: word32_eq_nibbles [of a b])

lemma length_nibbles32: "length (nibbles32 a) = 8"
  by (simp add: nibbles32_def)

subsection \<open>The units of a key and their common prefix\<close>

lemma units_as_nibbles:
  assumes "l \<le> 16"
  shows "units (NumericKey v l) = take l (nibbles32 (high v) @ nibbles32 (low v))"
proof -
  have "map (NumericKey_charAt (NumericKey v l)) [0..<16] = nibbles32 (high v) @ nibbles32 (low v)"
    unfolding upt_16 nibbles32_def upt_8
    by (simp add: charAt_high_half charAt_low_half del: One_nat_def)
  moreover have "map (NumericKey_charAt (NumericKey v l)) [0..<l] =
      take l (map (NumericKey_charAt (NumericKey v l)) [0..<16])"
    using assms by (simp add: take_map)
  ultimately show ?thesis
    by (simp add: units_def)
qed

lemma common_prefix_of_takes:
  "length (longest_common_prefix (take m xs) (take n ys)) =
     min (min m n) (length (longest_common_prefix xs ys))"
proof (induction xs ys arbitrary: m n rule: longest_common_prefix.induct)
  case (1 x xs y ys)
  then show ?case
    by (cases m; cases n; simp)
qed simp_all

lemma common_prefix_of_appends:
  "length xs = length ys \<Longrightarrow>
   length (longest_common_prefix (xs @ xs') (ys @ ys')) =
     (if xs = ys then length xs + length (longest_common_prefix xs' ys')
      else length (longest_common_prefix xs ys))"
  by (induction xs ys rule: list_induct2) auto

lemma length_common_prefix_le:
  "length (longest_common_prefix xs ys) \<le> min (length xs) (length ys)"
  by (induction xs ys rule: longest_common_prefix.induct) auto

lemma NumericKey_match_common_prefix:
  assumes "nlength a \<le> 16" and "nlength b \<le> 16"
  shows "NumericKey_match a b = length (longest_common_prefix (units a) (units b))"
proof -
  obtain v l where a: "a = NumericKey v l"
    by (cases a)
  obtain w m where b: "b = NumericKey w m"
    by (cases b)
  have l: "l \<le> 16" and m: "m \<le> 16"
    using assms a b by simp_all
  have full:
    "length (longest_common_prefix (nibbles32 (high v) @ nibbles32 (low v))
        (nibbles32 (high w) @ nibbles32 (low w))) =
       (if high v = high w then 8 + cmp (low v) (low w) else cmp (high v) (high w))"
    by (simp add: common_prefix_of_appends length_nibbles32 nibbles32_eq_iff cmp_common_nibbles)
  show ?thesis
    unfolding a b units_as_nibbles [OF l] units_as_nibbles [OF m] common_prefix_of_takes full
    using l m cmp_le_8 [of "low v" "low w"] cmp_le_8 [of "high v" "high w"]
    by (auto simp: NumericKey_match_def Let_def cmp_def min_def)
qed

text \<open>
  C7. In the numeric key domain, \<^verbatim>\<open>match(a, b)\<close> is the length in nibbles of the longest
  common prefix of the two keys, the nibbles taken from the most significant one; it is
  therefore at most the smaller of the two lengths. Keys of the domain have at most 16
  nibbles.
\<close>

theorem number_match_longest_common_prefix:
  assumes "nlength a \<le> 16" and "nlength b \<le> 16"
  shows "number_match (NumKey a) (NumKey b) = length (longest_common_prefix (units a) (units b))
    \<and> number_match (NumKey a) (NumKey b) \<le> min (nlength a) (nlength b)"
proof -
  have eq: "number_match (NumKey a) (NumKey b) = length (longest_common_prefix (units a) (units b))"
    using assms by (simp add: NumericKey_match_common_prefix)
  have "length (longest_common_prefix (units a) (units b)) \<le> min (length (units a)) (length (units b))"
    by (rule length_common_prefix_le)
  then show ?thesis
    using eq by (simp add: units_def)
qed

lemma common_prefix_same: "longest_common_prefix xs xs = xs"
  by (induction xs) auto

theorem number_match_longest_common_prefix_witness:
  "nlength (NumericKey 0x1234567800000000 16) \<le> 16 \<and>
   number_match (NumKey (NumericKey 0x1234567800000000 16))
     (NumKey (NumericKey 0x1234567800000000 16)) = 16"
  using number_match_longest_common_prefix
    [of "NumericKey 0x1234567800000000 16" "NumericKey 0x1234567800000000 16"]
  by (simp add: units_def common_prefix_same)

section \<open>Properties of the string comparator\<close>

text \<open>
  C3. The claim: in the string key domain, with and without an attribute, the comparator
  returns a negative, zero or positive number. Without an attribute the comparator of the
  source returns a function on every pair of values \<open>a\<close> and \<open>b\<close>, for instance on
  \<^verbatim>\<open>"a"\<close> and \<^verbatim>\<open>"b"\<close>; the tests \<^verbatim>\<open>>= 0\<close>, \<^verbatim>\<open><= 0\<close> and \<^verbatim>\<open>=== 0\<close> of the engine all
  fail on it.
\<close>

theorem string_comparator_without_attr_returns_function:
  "(case KEY_TYPES ''string'' default_config of
      Some (Domain opts) \<Rightarrow>
        comparator opts a b = Closure \<and>
        \<not> js_is0 (comparator opts a b) \<and>
        \<not> js_le0 (comparator opts a b) \<and>
        \<not> js_ge0 (comparator opts a b)
    | _ \<Rightarrow> False)"
  by (simp add: KEY_TYPES_def default_config_def attr_of_def string_comparator_def)

section \<open>Round trip of add and get\<close>

text \<open>
  The root of a new trie whose options hold all functions, written out: the call
  \<open>Node_new\<close> on the empty list reads \<^verbatim>\<open>emptyPrefix\<close> and \<^verbatim>\<open>binSize\<close> only, as the
  second branch of \<open>new_root\<close> does.
\<close>

lemma new_root_resolved:
  assumes "resolve opts = Some ropts"
  shows "new_root opts =
     (if 0 \<le> binSize ropts then Inr (Terminal (emptyPrefix ropts) [] False)
      else Inr (Branch (emptyPrefix ropts) [] 0 Undefined False))"
  using assms
  by (simp add: new_root_def Node_new_def explode.simps commonPrefix_def sortValues_def)

lemma resolve_default:
  "resolve (merged_options default_config) =
     Some \<lparr> uniqueKeys = True, binSize = 256,
            createKey = string_createKey, getKey = string_getKey None,
            setKey = string_setKey None, comparator = string_comparator None,
            match = string_match, prefix_k = string_prefix, emptyPrefix = StrKey [] \<rparr>"
  by (simp add: resolve_def merged_options_def merge_functions_def spread_def
      domain_functions_def no_functions_def KEY_TYPES_def config_type_def default_config_def
      attr_of_def config_binSize_def DEFAULT_binSize_def config_uniqueKeys_def
      DEFAULT_uniqueKeys_def)

lemma functions_default:
  "fgetKey (o_functions (merged_options default_config)) = Some (string_getKey None)"
  "fcreateKey (o_functions (merged_options default_config)) = Some string_createKey"
  "fmatch (o_functions (merged_options default_config)) = Some string_match"
  by (simp_all add: merged_options_def merge_functions_def spread_def domain_functions_def
      no_functions_def KEY_TYPES_def config_type_def default_config_def attr_of_def)

lemma Trie_new_default:
  "Trie_new default_config =
     Inr \<lparr> root = Terminal (StrKey []) [] False,
           options = merged_options default_config \<rparr>"
proof -
  have "KEY_TYPES (config_type default_config) default_config \<noteq> Some Inherited"
    by (simp add: KEY_TYPES_def config_type_def default_config_def)
  then show ?thesis
    by (simp add: Trie_new_def new_root_def resolve_default Node_new_def explode.simps
        commonPrefix_def split: option.splits type_entry.splits)
qed

text \<open>
  C1. The claim: after \<^verbatim>\<open>add(v)\<close>, \<^verbatim>\<open>get(getKey(v))\<close> returns \<open>v\<close>, in every
  configuration. In the default configuration, for every string \<open>s\<close> (for instance
  \<^verbatim>\<open>"a"\<close>), the trie built by the constructor accepts \<^verbatim>\<open>add(s)\<close>, the value sits in the
  root's bin, and \<^verbatim>\<open>get(s)\<close> answers \<^verbatim>\<open>undefined\<close>: the search of the bin never sees a
  comparator result equal to zero.
\<close>

theorem default_trie_get_after_add_is_absent:
  "(case Trie_new default_config of
      Inl e \<Rightarrow> False
    | Inr t0 \<Rightarrow>
        (case Trie_add 0 t0 (Str s) of
           (r1, t1) \<Rightarrow>
             r1 = Inr () \<and>
             root t1 = Terminal (StrKey []) [Str s] False \<and>
             fst (Trie_get t1 (Str s) None) = Inr Undefined))"
  apply (simp add: Trie_new_default)
  apply (simp add: Trie_add_def Trie_get_def resolve_default functions_default
      string_getKey_def string_createKey_def Node_add.simps insert_value_def
      string_match_loop.simps explode.simps Node_get.simps search_def sortValues_def
      string_setKey_def bounds_eq_def string_comparator_def accepts_def)
  apply (simp add: bounds_eq_loop.simps string_comparator_def accepts_def)
  done

text \<open>
  C2. The claim: in a numeric trie with \<^verbatim>\<open>uniqueKeys = true\<close> and no attribute, after
  adding \<^verbatim>\<open>0x1234_0000_0000_0000\<close>, \<^verbatim>\<open>0x1234_5678_0000_0000\<close> and
  \<^verbatim>\<open>0x1234_5678_9ABC_DEF0\<close>, the two lookups return the stored value and absent, without
  raising. The three adds return; both lookups raise a TypeError, because \<^verbatim>\<open>_search\<close>
  builds its needle with \<^verbatim>\<open>setKey\<close>. The third literal and the second lookup key are
  not doubles; the second run takes the doubles nearest to them, \<^verbatim>\<open>0x1234_5678_9ABC_DF00\<close>
  and \<^verbatim>\<open>0x1234_0000_0000_0000\<close>, with the same outcome.
\<close>

theorem numeric_trie_get_raises:
  "(case Trie_new numeric_config of
      Inl e \<Rightarrow> False
    | Inr t0 \<Rightarrow>
        (case Trie_add 0 t0 (Num 0x1234000000000000) of
           (r1, t1) \<Rightarrow>
        (case Trie_add 0 t1 (Num 0x1234567800000000) of
           (r2, t2) \<Rightarrow>
        (case Trie_add 0 t2 (Num 0x123456789ABCDEF0) of
           (r3, t3) \<Rightarrow>
             r1 = Inr () \<and> r2 = Inr () \<and> r3 = Inr () \<and>
             fst (Trie_get t3 (Num 0x1234567800000000) None) = Inl TypeError \<and>
             fst (Trie_get t3 (Num 0x1234000000000001) None) = Inl TypeError)))) \<and>
   (case Trie_new numeric_config of
      Inl e \<Rightarrow> False
    | Inr t0 \<Rightarrow>
        (case Trie_add 0 t0 (Num 0x1234000000000000) of
           (r1, t1) \<Rightarrow>
        (case Trie_add 0 t1 (Num 0x1234567800000000) of
           (r2, t2) \<Rightarrow>
        (case Trie_add 0 t2 (Num 0x123456789ABCDF00) of
           (r3, t3) \<Rightarrow>
             r1 = Inr () \<and> r2 = Inr () \<and> r3 = Inr () \<and>
             fst (Trie_get t3 (Num 0x1234567800000000) None) = Inl TypeError \<and>
             fst (Trie_get t3 (Num 0x1234000000000000) None) = Inl TypeError))))"
  by code_simp

section \<open>Deleting and compacting\<close>

text \<open>
  C4. The claim: when the root branches with empty \<^verbatim>\<open>skip\<close> into the edges \<^verbatim>\<open>"a"\<close> and
  \<^verbatim>\<open>"b"\<close>, each with a one-value terminal child, deleting the \<^verbatim>\<open>"b"\<close> entry returns
  that value and the root inherits the \<^verbatim>\<open>"a"\<close> child, whose value stays retrievable.
  With the key under the attribute \<^verbatim>\<open>k\<close>, the two adds build exactly that tree and
  the delete returns the \<^verbatim>\<open>"b"\<close> value, but the root becomes an empty terminal node and
  \<^verbatim>\<open>get("a")\<close> is absent afterwards. Without an attribute the two adds build the same
  tree and the delete returns \<^verbatim>\<open>undefined\<close>, leaving the tree as it is.
\<close>

theorem delete_b_loses_a:
  "(case Trie_new small_bin_attr_config of
      Inl e \<Rightarrow> False
    | Inr t0 \<Rightarrow>
        (case Trie_add 1 t0 (keyed ''a'') of
           (r1, t1) \<Rightarrow>
        (case Trie_add 1 t1 (keyed ''b'') of
           (r2, t2) \<Rightarrow>
        (case Trie_delete t2 (Str ''b'') None of
           (r3, t3) \<Rightarrow>
             r1 = Inr () \<and> r2 = Inr () \<and>
             root t2 =
               Branch (StrKey [])
                 [(Name ''a'', Terminal (StrKey ''a'') [keyed ''a''] False),
                  (Name ''b'', Terminal (StrKey ''b'') [keyed ''b''] False)]
                 0 Undefined False \<and>
             r3 = Inr (keyed ''b'') \<and>
             root t3 = Terminal (StrKey []) [] False \<and>
             fst (Trie_get t3 (Str ''a'') None) = Inr Undefined)))) \<and>
   (case Trie_new small_bin_config of
      Inl e \<Rightarrow> False
    | Inr t0 \<Rightarrow>
        (case Trie_add 1 t0 (Str ''a'') of
           (r1, t1) \<Rightarrow>
        (case Trie_add 1 t1 (Str ''b'') of
           (r2, t2) \<Rightarrow>
        (case Trie_delete t2 (Str ''b'') None of
           (r3, t3) \<Rightarrow>
             r1 = Inr () \<and> r2 = Inr () \<and>
             root t2 =
               Branch (StrKey [])
                 [(Name ''a'', Terminal (StrKey ''a'') [Str ''a''] False),
                  (Name ''b'', Terminal (StrKey ''b'') [Str ''b''] False)]
                 0 Undefined False \<and>
             r3 = Inr Undefined \<and>
             root t3 = root t2))))"
  by code_simp

text \<open>
  C5. The claim: when \<^verbatim>\<open>delete\<close> finds the entry in a terminal bin, the slot is spliced
  out if the keep part is absent and overwritten with the keep part otherwise. With
  duplicate keys under the attribute \<^verbatim>\<open>k\<close>, after adding \<^verbatim>\<open>{k:"a",v:1}\<close>,
  \<^verbatim>\<open>{k:"a",v:2}\<close> and \<^verbatim>\<open>{k:"b",v:3}\<close>, the call \<^verbatim>\<open>delete("a", x => x.v === 2)\<close> returns
  \<^verbatim>\<open>{k:"a",v:2}\<close>; \<^verbatim>\<open>_delete\<close> answers the keep part \<^verbatim>\<open>{k:"a",v:1}\<close>, and the slot holds
  a \<^verbatim>\<open>MultiValue\<close> with that single member instead.
\<close>

theorem terminal_delete_leaves_MultiValue_in_slot:
  "(case Trie_new duplicates_config of
      Inl e \<Rightarrow> False
    | Inr t0 \<Rightarrow>
        (case Trie_add 0 t0 (keyed_v ''a'' 1) of
           (r1, t1) \<Rightarrow>
        (case Trie_add 0 t1 (keyed_v ''a'' 2) of
           (r2, t2) \<Rightarrow>
        (case Trie_add 0 t2 (keyed_v ''b'' 3) of
           (r3, t3) \<Rightarrow>
        (case Trie_delete t3 (Str ''a'') (Some (v_is 2)) of
           (r4, t4) \<Rightarrow>
             r1 = Inr () \<and> r2 = Inr () \<and> r3 = Inr () \<and>
             root t3 = root duplicates_trie \<and>
             r4 = Inr (keyed_v ''a'' 2) \<and>
             delete_value (MultiValue [keyed_v ''a'' 1, keyed_v ''a'' 2] [(''k'', Str ''a'')])
                 (Some (v_is 2)) =
               Inr (keyed_v ''a'' 1, keyed_v ''a'' 2,
                    MultiValue [keyed_v ''a'' 1] [(''k'', Str ''a'')]) \<and>
             root t4 =
               Terminal (StrKey [])
                 [MultiValue [keyed_v ''a'' 1] [(''k'', Str ''a'')], keyed_v ''b'' 3] False)))))"
  by code_simp

text \<open>
  C6. The claim: after a delete that removes the last value of the trie, the root is a
  terminal node with an empty bin, \<^verbatim>\<open>dirty\<close> false and the empty prefix as \<^verbatim>\<open>skip\<close>.
  With the keys \<^verbatim>\<open>"1"\<close> and \<^verbatim>\<open>"2"\<close> under the attribute \<^verbatim>\<open>k\<close> and \<^verbatim>\<open>binSize = 1\<close>, both
  deletes return the value they remove, and the root is still a branching node, with no
  edge left.
\<close>

theorem delete_last_value_leaves_branching_root:
  "(case Trie_new small_bin_attr_config of
      Inl e \<Rightarrow> False
    | Inr t0 \<Rightarrow>
        (case Trie_add 1 t0 (keyed ''1'') of
           (r1, t1) \<Rightarrow>
        (case Trie_add 1 t1 (keyed ''2'') of
           (r2, t2) \<Rightarrow>
        (case Trie_delete t2 (Str ''2'') None of
           (r3, t3) \<Rightarrow>
        (case Trie_delete t3 (Str ''1'') None of
           (r4, t4) \<Rightarrow>
             r1 = Inr () \<and> r2 = Inr () \<and>
             root t2 =
               Branch (StrKey [])
                 [(Idx 1, Terminal (StrKey ''1'') [keyed ''1''] False),
                  (Idx 2, Terminal (StrKey ''2'') [keyed ''2''] False)]
                 3 Undefined False \<and>
             r3 = Inr (keyed ''2'') \<and> r4 = Inr (keyed ''1'') \<and>
             root t4 = Branch (StrKey []) [] 3 Undefined False)))))"
  by code_simp

section \<open>The bin bound\<close>

text \<open>
  C8. The claim: after every public operation returns, every terminal bin holds values
  of at most \<^verbatim>\<open>binSize\<close> distinct keys. In a numeric trie without attribute, with
  duplicate keys allowed and \<^verbatim>\<open>binSize = 2\<close>, the adds of \<^verbatim>\<open>0x15\<close>, \<^verbatim>\<open>0x16\<close> and
  \<^verbatim>\<open>0x20\<close> return and the bound holds. The adds of \<^verbatim>\<open>0x15\<close> and \<^verbatim>\<open>0x14\<close> raise a
  TypeError while \<^verbatim>\<open>_explode\<close> sorts the bin, after \<^verbatim>\<open>_insert\<close> has pushed the value.
  The following \<^verbatim>\<open>get(0x30)\<close> returns \<^verbatim>\<open>undefined\<close>, and a terminal bin of the trie
  holds four values of three distinct keys.
\<close>

theorem bin_exceeds_binSize_after_get_returns:
  "(case Trie_new numeric_duplicates_config of
      Inl e \<Rightarrow> False
    | Inr t0 \<Rightarrow>
        (case Trie_add 1 t0 (Num 0x15) of
           (r1, t1) \<Rightarrow>
        (case Trie_add 1 t1 (Num 0x16) of
           (r2, t2) \<Rightarrow>
        (case Trie_add 1 t2 (Num 0x20) of
           (r3, t3) \<Rightarrow>
        (case Trie_add 1 t3 (Num 0x15) of
           (r4, t4) \<Rightarrow>
        (case Trie_add 1 t4 (Num 0x14) of
           (r5, t5) \<Rightarrow>
        (case Trie_get t5 (Num 0x30) None of
           (r6, t6) \<Rightarrow>
             r1 = Inr () \<and> r2 = Inr () \<and> r3 = Inr () \<and>
             r4 = Inl TypeError \<and> r5 = Inl TypeError \<and> r6 = Inr Undefined \<and>
             root t6 =
               Branch (NumKey (NumericKey 0 14))
                 [(Idx 1,
                   Terminal (NumKey (NumericKey 0x10 15))
                     [Num 0x14, Num 0x15, Num 0x15, Num 0x16] False),
                  (Idx 2, Terminal (NumKey (NumericKey 0x20 16)) [Num 0x20] False)]
                 3 Undefined False \<and>
             (case resolve (options t6) of
                None \<Rightarrow> False
              | Some opts \<Rightarrow>
                  binSize opts = 2 \<and>
                  distinct_key_count opts [Num 0x14, Num 0x15, Num 0x15, Num 0x16] = 3 \<and>
                  bins_within opts (root t3) \<and>
                  \<not> bins_within opts (root t6)))))))))"
  by code_simp

section \<open>Unknown key types\<close>




text \<open>
  The hypotheses mark the other outcomes. A caller that passes the key-domain functions
  along with the unknown type gets a working trie: nothing raises, a stored key is found
  and a key that is not stored is a miss. The constructor itself raises on the name of a
  property that every object inherits, whatever the caller passes, and on an unknown type
  with a negative \<^verbatim>\<open>binSize\<close> and no \<^verbatim>\<open>emptyPrefix\<close>.
\<close>

lemma unknown_type_with_caller_functions_works:
  "(case Trie_new custom_type_config of
      Inl e \<Rightarrow> False
    | Inr t0 \<Rightarrow>
        (case Trie_add 0 t0 (keyed ''a'') of
           (r1, t1) \<Rightarrow>
             r1 = Inr () \<and>
             fst (Trie_get t1 (Str ''a'') None) = Inr (keyed ''a'') \<and>
             fst (Trie_get t1 (Str ''b'') None) = Inr Undefined))"
  by code_simp

lemma inherited_type_name_raises:
  "Trie_new \<lparr> ctype = Some ''constructor'', cattr = None, cuniqueKeys = None, cbinSize = None,
       cfunctions = fs \<rparr> = Inl TypeError"
  by (simp add: Trie_new_def KEY_TYPES_def config_type_def Object_prototype_names_def)

lemma unknown_type_negative_binSize_raises:
  "Trie_new \<lparr> ctype = Some ''bytes'', cattr = None, cuniqueKeys = None, cbinSize = Some (- 1),
       cfunctions = no_functions \<rparr> = Inl TypeError"
  by (simp add: Trie_new_def new_root_def resolve_def merged_options_def merge_functions_def
      spread_def no_functions_def KEY_TYPES_def config_type_def Object_prototype_names_def
      config_binSize_def)

section \<open>The result of get\<close>



end
